theory Spec2Isabelle
  imports Main "HOL-Library.Sublist"
begin

section \<open>Strings and values of the JavaScript source\<close>

text \<open>
  A JavaScript string is a sequence of UTF-16 code units. The source trims message
  content, concatenates identifiers and builds notification texts that hold CJK
  characters and emoji, so strings are modelled as lists of code units rather than
  as 8-bit characters.
\<close>

type_synonym js_string = "nat list"

definition ascii :: "string \<Rightarrow> js_string" where
  "ascii s = map of_char s"

text \<open>
  A value that the source interpolates into a template literal: a string, or one of
  the two empty values. \<open>`${undefined}`\<close> is the text \<open>undefined\<close> and
  \<open>`${null}`\<close> is the text \<open>null\<close>.
\<close>

datatype js_content = JString js_string | JUndefined | JNull

fun template_text :: "js_content \<Rightarrow> js_string" where
  "template_text (JString s) = s"
| "template_text JUndefined = ascii ''undefined''"
| "template_text JNull = ascii ''null''"

section \<open>Classification results and the effects of the handlers\<close>

text \<open>The closed set of state names of a classification result.\<close>

datatype state_type =
    idle_input | input_prompt | completed | error | plan_mode
  | testing | git_operation | warning | none

record classification =
  type :: state_type
  content :: js_content
  timestamp :: nat

text \<open>
  The lines the source hands to its logger, one constructor per call site, with the
  interpolated values as arguments.
\<close>

datatype log_line =
    MonitorStarted "js_string option"
  | PollSkippedDisconnected
  | CaptureError js_string
  | DetectFailed js_string
  | StateChanged state_type
  | StateNotNotified state_type
  | StateUnhandled state_type
  | StateChangeFailed js_string
  | DuplicateIgnored js_string
  | MessageReceived js_string bool
  | MessageFailed js_string
  | ClientErrorLogged js_string

text \<open>
  Everything a handler does to its collaborators, in the order in which it does it.
  The collaborators themselves (messenger, router, deduplicator, session buffer,
  detector, process manager, timers) live outside the two source files; a handler
  is modelled by the calls it makes to them and by what it does with their answers.
\<close>

datatype effect =
    Log log_line
  | SendText js_string
  | IsProcessed js_string
  | MarkProcessed js_string
  | Route js_string
  | BufferUpdate js_string
  | Detect js_string
  | SetMonitorState state_type
  | Spawn nat "js_string option"
  | SetTimeout nat nat
  | TranscriptStart

datatype call_outcome = Returned | Threw js_string

section \<open>handleStateChange\<close>

text \<open>
  The two notification texts of the source, as UTF-16 code units: a bell emoji, the
  product name and a sentence saying that input is awaited, two line feeds and the
  label of the current prompt; and a check mark, the product name in bold with a
  sentence saying that the task is completed, two line feeds and a sentence saying
  that new input is awaited, ending in three dots.
\<close>

definition waiting_prefix :: js_string where
  "waiting_prefix =
     [55357, 56596, 32] @ ascii ''Claude Code '' @
     [27491, 22312, 31561, 24453, 36755, 20837, 10, 10,
      24403, 21069, 25552, 31034, 65306]"

definition completed_text :: js_string where
  "completed_text =
     [9989, 32] @ ascii ''**Claude Code '' @
     [20219, 21153, 24050, 23436, 25104] @ ascii ''**'' @
     [10, 10, 27491, 22312, 31561, 24453, 26032, 30340, 36755, 20837] @ ascii ''...''"

text \<open>
  The local helper \<open>cleanContent\<close>: an empty value or a non-string is returned as it
  is, a non-empty string goes through the session buffer's
  \<open>cleanForNotification(content, 30)\<close>, which is a parameter here.
\<close>

fun cleanContent :: "(js_string \<Rightarrow> nat \<Rightarrow> js_string) \<Rightarrow> js_content \<Rightarrow> js_content" where
  "cleanContent clean (JString s) = (if s = [] then JString s else JString (clean s 30))"
| "cleanContent clean JUndefined = JUndefined"
| "cleanContent clean JNull = JNull"

text \<open>
  The part of \<open>handleStateChange\<close> that runs before its first suspension: the debug
  line, then the \<open>switch\<close> on the type. For \<open>error\<close> the case is an immediate
  \<open>break\<close>; five types only write a debug line; \<open>input_prompt\<close> and
  \<open>completed\<close> call \<open>messenger.sendText\<close>; every other type reaches \<open>default\<close>.
\<close>

definition waiting_text :: "(js_string \<Rightarrow> nat \<Rightarrow> js_string) \<Rightarrow> classification \<Rightarrow> js_string" where
  "waiting_text clean r = waiting_prefix @ template_text (cleanContent clean (content r))"

definition handleStateChange_begin ::
  "(js_string \<Rightarrow> nat \<Rightarrow> js_string) \<Rightarrow> classification \<Rightarrow> effect list" where
  "handleStateChange_begin clean r =
     Log (StateChanged (type r)) #
     (case type r of
        error \<Rightarrow> []
      | plan_mode \<Rightarrow> [Log (StateNotNotified (type r))]
      | testing \<Rightarrow> [Log (StateNotNotified (type r))]
      | git_operation \<Rightarrow> [Log (StateNotNotified (type r))]
      | warning \<Rightarrow> [Log (StateNotNotified (type r))]
      | idle_input \<Rightarrow> [Log (StateNotNotified (type r))]
      | input_prompt \<Rightarrow> [SendText (waiting_text clean r)]
      | completed \<Rightarrow> [SendText completed_text]
      | none \<Rightarrow> [Log (StateUnhandled (type r))])"

text \<open>
  The part after the awaited send settles: a rejected send is caught and logged,
  anything else ends the handler silently. \<open>send\<close> is the answer of
  \<open>messenger.sendText\<close> to a given text.
\<close>

definition send_settled :: "(js_string \<Rightarrow> call_outcome) \<Rightarrow> js_string \<Rightarrow> effect list" where
  "send_settled send text =
     (case send text of Returned \<Rightarrow> [] | Threw msg \<Rightarrow> [Log (StateChangeFailed msg)])"

definition handleStateChange_settle ::
  "(js_string \<Rightarrow> nat \<Rightarrow> js_string) \<Rightarrow> (js_string \<Rightarrow> call_outcome) \<Rightarrow>
   classification \<Rightarrow> effect list" where
  "handleStateChange_settle clean send r =
     (case type r of
        input_prompt \<Rightarrow> send_settled send (waiting_text clean r)
      | completed \<Rightarrow> send_settled send completed_text
      | _ \<Rightarrow> [])"

definition handleStateChange ::
  "(js_string \<Rightarrow> nat \<Rightarrow> js_string) \<Rightarrow> (js_string \<Rightarrow> call_outcome) \<Rightarrow>
   classification \<Rightarrow> effect list" where
  "handleStateChange clean send r =
     handleStateChange_begin clean r @ handleStateChange_settle clean send r"

fun is_send :: "effect \<Rightarrow> bool" where
  "is_send (SendText t) = True"
| "is_send _ = False"

section \<open>The monitoring loop\<close>

text \<open>
  The module-level variables the loop reads and writes, together with what the
  runtime holds for it: the timers that are pending, and the sampling processes
  that have been spawned and have not closed yet, each with the text accumulated
  from its standard output. \<open>ready\<close> follows the one-shot ClientReady listener:
  it has not run, it is suspended in its command registration, or it is done.
\<close>

datatype ready_stage = NotReady | Registering | ReadyDone

record sample =
  pid :: nat
  target :: "js_string option"
  newBuffer :: js_string

record monitor_state =
  isDiscordConnected :: bool
  ready :: ready_stage
  currentSession :: "js_string option"
  timers :: "(nat \<times> nat) list"
  nextTimer :: nat
  monitorTimeout :: "nat option"
  samples :: "sample list"
  nextPid :: nat
  trace :: "effect list"

record collaborators =
  pollInterval :: nat
  cleanForNotification :: "js_string \<Rightarrow> nat \<Rightarrow> js_string"
  sendText :: "js_string \<Rightarrow> call_outcome"

definition initial_state :: "js_string option \<Rightarrow> monitor_state" where
  "initial_state session =
     \<lparr>isDiscordConnected = False, ready = NotReady, currentSession = session,
      timers = [], nextTimer = 0, monitorTimeout = None, samples = [], nextPid = 0,
      trace = []\<rparr>"

definition emit :: "effect list \<Rightarrow> monitor_state \<Rightarrow> monitor_state" where
  "emit es s = s\<lparr>trace := trace s @ es\<rparr>"

text \<open>
  \<open>monitorTimeout = setTimeout(scheduleNextPoll, delay)\<close>: one more pending
  timer, whose handle overwrites the variable.
\<close>

definition setTimeout :: "nat \<Rightarrow> monitor_state \<Rightarrow> monitor_state" where
  "setTimeout delay s =
     emit [SetTimeout (nextTimer s) delay]
       (s\<lparr>timers := timers s @ [(nextTimer s, delay)],
          monitorTimeout := Some (nextTimer s),
          nextTimer := Suc (nextTimer s)\<rparr>)"

text \<open>
  \<open>scheduleNextPoll\<close>, up to the registration of its listeners: with the flag
  false it logs and returns; otherwise it spawns one capture-pane process for the
  current session, with an empty accumulator. The options of the spawn (a timeout
  of ten seconds, and two callbacks that only write a log line) leave the state
  as it is.
\<close>

definition scheduleNextPoll :: "monitor_state \<Rightarrow> monitor_state" where
  "scheduleNextPoll s =
     (if \<not> isDiscordConnected s then emit [Log PollSkippedDisconnected] s
      else emit [Spawn (nextPid s) (currentSession s)]
             (s\<lparr>samples := samples s @
                    [\<lparr>pid = nextPid s, target = currentSession s, newBuffer = []\<rparr>],
                nextPid := Suc (nextPid s)\<rparr>))"

text \<open>The \<open>data\<close> listener of the process's standard output.\<close>

definition on_data :: "nat \<Rightarrow> js_string \<Rightarrow> monitor_state \<Rightarrow> monitor_state" where
  "on_data p chunk s =
     s\<lparr>samples := map (\<lambda>x. if pid x = p then x\<lparr>newBuffer := newBuffer x @ chunk\<rparr> else x)
                     (samples s)\<rparr>"

text \<open>
  What the detector answers to \<open>detect\<close>: the promise resolves with a result or
  with null, or it rejects.
\<close>

datatype detect_outcome = Resolved "classification option" | Rejected js_string

text \<open>
  The continuation attached to the promise of \<open>detect\<close>. A result that is not
  null goes to \<open>handleStateChange\<close>, which is not awaited: it runs up to its send,
  then the router is given the detector's current state, and the send settles
  afterwards. A rejection is logged. The router is constructed before a listener
  is registered, so the test that it is set succeeds.
\<close>

definition detect_settled ::
  "collaborators \<Rightarrow> detect_outcome \<Rightarrow> state_type \<Rightarrow> effect list" where
  "detect_settled env outcome current =
     (case outcome of
        Resolved (Some r) \<Rightarrow>
          handleStateChange_begin (cleanForNotification env) r @
          [SetMonitorState current] @
          handleStateChange_settle (cleanForNotification env) (sendText env) r
      | Resolved None \<Rightarrow> [SetMonitorState current]
      | Rejected msg \<Rightarrow> [Log (DetectFailed msg)])"

text \<open>
  The \<open>close\<close> listener, for a process whose accumulated text is \<open>buf\<close>. A
  non-empty text is given to the session buffer and then to the detector; then,
  with the flag true, the next tick is scheduled after the detector's interval;
  the promise of \<open>detect\<close> settles after the listener has returned.
\<close>

definition close_listener ::
  "collaborators \<Rightarrow> js_string \<Rightarrow> detect_outcome \<Rightarrow> state_type \<Rightarrow> nat \<Rightarrow>
   monitor_state \<Rightarrow> monitor_state" where
  "close_listener env buf outcome current interval s =
     (let s1 = (if buf \<noteq> [] then emit [BufferUpdate buf, Detect buf] s else s);
          s2 = (if isDiscordConnected s1 then setTimeout interval s1 else s1)
      in if buf \<noteq> [] then emit (detect_settled env outcome current) s2 else s2)"

text \<open>The \<open>error\<close> listener: it logs and schedules the next tick.\<close>

definition error_listener :: "js_string \<Rightarrow> nat \<Rightarrow> monitor_state \<Rightarrow> monitor_state" where
  "error_listener msg interval s = setTimeout interval (emit [Log (CaptureError msg)] s)"

text \<open>
  \<open>startMonitorPolling\<close>: it logs the session and schedules the first tick after
  the configured interval.
\<close>

definition startMonitorPolling :: "collaborators \<Rightarrow> monitor_state \<Rightarrow> monitor_state" where
  "startMonitorPolling env s =
     setTimeout (pollInterval env) (emit [Log (MonitorStarted (currentSession s))] s)"

text \<open>
  A session name is tested for truth: null and the empty string both fail the test.
\<close>

definition has_session :: "monitor_state \<Rightarrow> bool" where
  "has_session s = (case currentSession s of None \<Rightarrow> False | Some n \<Rightarrow> n \<noteq> [])"

text \<open>
  What the runtime delivers to the loop. A timer fires; a process writes to its
  standard output, reports an error, or closes. Closing ends a process; reporting
  an error does not, and a process that could not be started reports the error and
  then closes. The values the detector returns to the listener that runs
  (\<open>detect\<close>, \<open>getCurrentState\<close>, \<open>getPollInterval\<close>) come with the event.
  ClientReady is delivered to a one-shot listener, which sets the flag and
  suspends in the registration of the slash commands; when that has settled it
  starts the transcript monitor and, with a session, the polling. The chat client
  also reports an error of its connection, which the source logs, and the loss and
  the resumption of its gateway connection, for which the source registers no
  listener. The only assignment to the flag in the source is the one of the
  ClientReady listener, which sets it to true.
\<close>

datatype event =
    ClientReady
  | CommandsRegistered
  | SessionChanged "js_string option"
  | TimerFired nat
  | StdoutData nat js_string
  | ProcessError nat js_string nat
  | ProcessClosed nat detect_outcome state_type nat
  | ClientError js_string
  | ShardDisconnect
  | ShardResume

definition find_sample :: "nat \<Rightarrow> monitor_state \<Rightarrow> sample option" where
  "find_sample p s = find (\<lambda>x. pid x = p) (samples s)"

definition step :: "collaborators \<Rightarrow> monitor_state \<Rightarrow> event \<Rightarrow> monitor_state" where
  "step env s ev =
     (case ev of
        ClientReady \<Rightarrow>
          (if ready s = NotReady then s\<lparr>isDiscordConnected := True, ready := Registering\<rparr>
           else s)
      | CommandsRegistered \<Rightarrow>
          (if ready s = Registering then
             (let s1 = emit [TranscriptStart] (s\<lparr>ready := ReadyDone\<rparr>)
              in if has_session s1 then startMonitorPolling env s1 else s1)
           else s)
      | SessionChanged n \<Rightarrow> s\<lparr>currentSession := n\<rparr>
      | TimerFired t \<Rightarrow>
          (if t \<in> fst ` set (timers s)
           then scheduleNextPoll (s\<lparr>timers := filter (\<lambda>x. fst x \<noteq> t) (timers s)\<rparr>)
           else s)
      | StdoutData p chunk \<Rightarrow> on_data p chunk s
      | ProcessError p msg interval \<Rightarrow>
          (case find_sample p s of
             None \<Rightarrow> s
           | Some x \<Rightarrow> error_listener msg interval s)
      | ProcessClosed p outcome current interval \<Rightarrow>
          (case find_sample p s of
             None \<Rightarrow> s
           | Some x \<Rightarrow>
               close_listener env (newBuffer x) outcome current interval
                 (s\<lparr>samples := filter (\<lambda>y. pid y \<noteq> p) (samples s)\<rparr>))
      | ClientError msg \<Rightarrow> emit [Log (ClientErrorLogged msg)] s
      | ShardDisconnect \<Rightarrow> s
      | ShardResume \<Rightarrow> s)"

definition run :: "collaborators \<Rightarrow> monitor_state \<Rightarrow> event list \<Rightarrow> monitor_state" where
  "run env s evs = foldl (step env) s evs"


section \<open>The idempotency cache\<close>

text \<open>
  The deduplicator is an object of another module. The message handler only calls
  its \<open>isProcessed\<close> and \<open>markProcessed\<close>, so it takes the two operations as a
  parameter, over any representation \<open>'d\<close> of the cache.
\<close>

record 'd deduplicator =
  isProcessed :: "'d \<Rightarrow> js_string \<Rightarrow> bool"
  markProcessed :: "'d \<Rightarrow> js_string \<Rightarrow> 'd"

text \<open>
  Modelled from the spec: the idempotency cache of \<open>utils/deduplicator.js\<close>, which
  is not among the source files. It is a store of entries \<open>{key, firstSeen}\<close>
  bounded by \<open>maxSize\<close>, expiring after \<open>ttl\<close>. A key that is present counts as
  processed. Marking a key that is present changes nothing, so the age of an entry
  is measured from its first insertion; marking a new key at capacity first evicts
  the entry with the smallest \<open>firstSeen\<close>. The periodic cleanup removes the
  entries whose age exceeds \<open>ttl\<close>. The clock is an argument.
\<close>

record idempotency_entry =
  key :: js_string
  firstSeen :: nat

record idempotency_cache =
  entries :: "idempotency_entry list"
  ttl :: nat
  maxSize :: nat

definition cache_isProcessed :: "idempotency_cache \<Rightarrow> js_string \<Rightarrow> bool" where
  "cache_isProcessed c k = list_ex (\<lambda>e. key e = k) (entries c)"

fun evict_oldest :: "idempotency_entry list \<Rightarrow> idempotency_entry list" where
  "evict_oldest [] = []"
| "evict_oldest (e # es) =
     (if list_all (\<lambda>x. firstSeen e \<le> firstSeen x) es then es else e # evict_oldest es)"

definition cache_markProcessed :: "nat \<Rightarrow> idempotency_cache \<Rightarrow> js_string \<Rightarrow> idempotency_cache" where
  "cache_markProcessed now c k =
     (if cache_isProcessed c k then c
      else c\<lparr>entries :=
               (if maxSize c \<le> length (entries c) then evict_oldest (entries c)
                else entries c) @ [\<lparr>key = k, firstSeen = now\<rparr>]\<rparr>)"

definition cache_cleanup :: "nat \<Rightarrow> idempotency_cache \<Rightarrow> idempotency_cache" where
  "cache_cleanup now c = c\<lparr>entries := filter (\<lambda>e. now \<le> firstSeen e + ttl c) (entries c)\<rparr>"

definition cache_at :: "nat \<Rightarrow> idempotency_cache deduplicator" where
  "cache_at now = \<lparr>isProcessed = cache_isProcessed, markProcessed = cache_markProcessed now\<rparr>"

section \<open>handleDiscordMessage\<close>

record discord_message =
  author_bot :: bool
  message_channelId :: js_string
  message_content :: js_content
  message_id :: js_string

text \<open>
  \<open>String.prototype.trim\<close> removes the white space and line terminator code units
  of ECMAScript from both ends.
\<close>

definition js_whitespace :: "nat \<Rightarrow> bool" where
  "js_whitespace c =
     (c \<in> {9, 10, 11, 12, 13, 32, 160, 5760, 8232, 8233, 8239, 8287, 12288, 65279}
      \<or> (8192 \<le> c \<and> c \<le> 8202))"

definition js_trim :: "js_string \<Rightarrow> js_string" where
  "js_trim s = rev (dropWhile js_whitespace (rev (dropWhile js_whitespace s)))"

definition event_id :: "discord_message \<Rightarrow> js_string" where
  "event_id m = ascii ''discord_'' @ message_id m"

text \<open>
  The three filters of the handler, in the order of the source: the author is a
  bot; the channel is not the configured one; the content is empty (null,
  undefined or the empty string) or trims to nothing.
\<close>

definition content_text :: "discord_message \<Rightarrow> js_string option" where
  "content_text m =
     (case message_content m of
        JString c \<Rightarrow> if c = [] \<or> length (js_trim c) = 0 then None else Some c
      | JUndefined \<Rightarrow> None
      | JNull \<Rightarrow> None)"

text \<open>
  The handler returns the calls it made and the deduplicator it leaves behind.
  \<open>route\<close> is the answer of the awaited \<open>router.route\<close> to a text; a rejection
  is caught and logged. The log line of an accepted message holds the first fifty
  code units of the content and whether more follow.
\<close>

definition handleDiscordMessage ::
  "js_string \<Rightarrow> 'd deduplicator \<Rightarrow> (js_string \<Rightarrow> call_outcome) \<Rightarrow>
   discord_message \<Rightarrow> 'd \<Rightarrow> effect list \<times> 'd" where
  "handleDiscordMessage channel dd route m d =
     (if author_bot m then ([], d)
      else if message_channelId m \<noteq> channel then ([], d)
      else case content_text m of
        None \<Rightarrow> ([], d)
      | Some c \<Rightarrow>
          (if isProcessed dd d (event_id m)
           then ([IsProcessed (event_id m), Log (DuplicateIgnored (event_id m))], d)
           else ([IsProcessed (event_id m), MarkProcessed (event_id m),
                  Log (MessageReceived (take 50 c) (50 < length c)), Route c] @
                 (case route c of Returned \<Rightarrow> [] | Threw msg \<Rightarrow> [Log (MessageFailed msg)]),
                 markProcessed dd d (event_id m))))"



text \<open>
  What reaches the handler and its cache over time: the chat client delivers a
  message, or the cleanup timer of the cache fires. \<open>route t\<close> is the answer of
  the router at time \<open>t\<close>. A sequence of such events gives the effects of each
  event, in order, and the cache left at the end.
\<close>

datatype inbound_event = Delivered nat discord_message | CleanupRan nat


fun handle_inbound ::
  "js_string \<Rightarrow> (nat \<Rightarrow> js_string \<Rightarrow> call_outcome) \<Rightarrow> inbound_event \<Rightarrow>
   idempotency_cache \<Rightarrow> effect list \<times> idempotency_cache" where
  "handle_inbound channel route (Delivered t m) c =
     handleDiscordMessage channel (cache_at t) (route t) m c"
| "handle_inbound channel route (CleanupRan t) c = ([], cache_cleanup t c)"

fun handle_all ::
  "js_string \<Rightarrow> (nat \<Rightarrow> js_string \<Rightarrow> call_outcome) \<Rightarrow> inbound_event list \<Rightarrow>
   idempotency_cache \<Rightarrow> effect list list \<times> idempotency_cache" where
  "handle_all channel route [] c = ([], c)"
| "handle_all channel route (ev # evs) c =
     (fst (handle_inbound channel route ev c) #
        fst (handle_all channel route evs (snd (handle_inbound channel route ev c))),
      snd (handle_all channel route evs (snd (handle_inbound channel route ev c))))"


section \<open>Startup and shutdown\<close>

text \<open>
  The statements of \<open>shutdown\<close> and of \<open>main\<close> that act on a component, in
  the order of the source. Both functions run their statements inside one
  \<open>try\<close> block: the first statement that throws (or whose awaited promise
  rejects) ends the block, and the \<open>catch\<close> clause runs.
\<close>

datatype shutdown_step =
    ClearMonitorTimeout | StopProcessManager | DestroyDeduplicator
  | DestroyMessageHistory | StopTranscriptMonitor | DestroyDiscordClient

datatype startup_step =
    ValidateDiscordConfig | NewProcessManager | StartProcessManager | NewSessionManager
  | NewDeduplicator | NewMessageHistory | NewClient | NewDiscordAdapter
  | NewTranscriptMonitor | NewTmuxCommander | NewStateDetector | NewMessageRouter
  | PrintStartupInfo | AutoSelectSession | BindSession | WarnNoSession
  | RegisterClientListeners | Login | RegisterProcessListeners

datatype lifecycle_action =
    Startup startup_step
  | StartupThrew startup_step
  | LogStartupFailed
  | Shutdown shutdown_step
  | ShutdownThrew shutdown_step
  | LogShutdownFailed
  | ProcessExit nat

text \<open>
  The \<open>try\<close> block of \<open>shutdown\<close>. Each statement is guarded by a test that its
  variable is set; \<open>present\<close> gives the result of that test and \<open>throws\<close> says
  whether the call fails. The result is the actions performed and whether the
  block was left by an exception.
\<close>

fun shutdown_try ::
  "(shutdown_step \<Rightarrow> bool) \<Rightarrow> (shutdown_step \<Rightarrow> bool) \<Rightarrow> shutdown_step list \<Rightarrow>
   lifecycle_action list \<times> bool" where
  "shutdown_try present throws [] = ([], False)"
| "shutdown_try present throws (x # xs) =
     (if \<not> present x then shutdown_try present throws xs
      else if throws x then ([ShutdownThrew x], True)
      else (Shutdown x # fst (shutdown_try present throws xs),
            snd (shutdown_try present throws xs)))"

definition shutdown ::
  "(shutdown_step \<Rightarrow> bool) \<Rightarrow> (shutdown_step \<Rightarrow> bool) \<Rightarrow> lifecycle_action list" where
  "shutdown present throws =
     (let r = shutdown_try present throws
                [ClearMonitorTimeout, StopProcessManager, DestroyDeduplicator,
                 DestroyMessageHistory, StopTranscriptMonitor, DestroyDiscordClient]
      in fst r @ (if snd r then [LogShutdownFailed] else []) @ [ProcessExit 0])"

text \<open>
  The \<open>try\<close> block of \<open>main\<close>: the statements run in order; the first one that
  throws leads to the \<open>catch\<close> clause, which logs and calls \<open>process.exit(1)\<close>.
  When none throws, the service keeps running. After the session has been
  selected, one of two branches runs, depending on whether a session was found.
\<close>

fun main_try :: "(startup_step \<Rightarrow> bool) \<Rightarrow> startup_step list \<Rightarrow> lifecycle_action list" where
  "main_try throws [] = []"
| "main_try throws (x # xs) =
     (if throws x then [StartupThrew x, LogStartupFailed, ProcessExit 1]
      else Startup x # main_try throws xs)"

definition main_steps :: "bool \<Rightarrow> startup_step list" where
  "main_steps session_found =
     [ValidateDiscordConfig, NewProcessManager, StartProcessManager, NewSessionManager,
      NewDeduplicator, NewMessageHistory, NewClient, NewDiscordAdapter,
      NewTranscriptMonitor, NewTmuxCommander, NewStateDetector, NewMessageRouter,
      PrintStartupInfo, AutoSelectSession,
      (if session_found then BindSession else WarnNoSession),
      RegisterClientListeners, Login, RegisterProcessListeners]"

definition main :: "(startup_step \<Rightarrow> bool) \<Rightarrow> bool \<Rightarrow> lifecycle_action list" where
  "main throws session_found = main_try throws (main_steps session_found)"

fun is_shutdown_action :: "lifecycle_action \<Rightarrow> bool" where
  "is_shutdown_action (Shutdown x) = True"
| "is_shutdown_action (ShutdownThrew x) = True"
| "is_shutdown_action _ = False"

section \<open>Auxiliary definitions for the statements\<close>


text \<open>
  While the flag is false nothing is pending and nothing is in flight, and the
  ClientReady listener has not run.
\<close>

definition paused :: "monitor_state \<Rightarrow> bool" where
  "paused s =
     (\<not> isDiscordConnected s \<longrightarrow> timers s = [] \<and> samples s = [] \<and> ready s = NotReady)"

text \<open>
  Pending ticks and samples in flight are at most one in all, and there are none
  before the polling has been started.
\<close>

definition serial :: "monitor_state \<Rightarrow> bool" where
  "serial s =
     (length (timers s) + length (samples s) \<le> 1 \<and>
      (ready s \<noteq> ReadyDone \<longrightarrow> timers s = [] \<and> samples s = []))"

fun is_error_event :: "event \<Rightarrow> bool" where
  "is_error_event (ProcessError p msg interval) = True"
| "is_error_event _ = False"





text \<open>The shutdown statements that ran to completion, in the order of the trace.\<close>

fun completed_steps :: "lifecycle_action list \<Rightarrow> shutdown_step list" where
  "completed_steps [] = []"
| "completed_steps (Shutdown x # as) = x # completed_steps as"
| "completed_steps (a # as) = completed_steps as"

text \<open>Concrete collaborators, messages and caches for the instances below.\<close>

definition no_clean :: "js_string \<Rightarrow> nat \<Rightarrow> js_string" where
  "no_clean s n = s"

definition send_ok :: "js_string \<Rightarrow> call_outcome" where
  "send_ok t = Returned"

definition quiet_env :: collaborators where
  "quiet_env = \<lparr>pollInterval = 2000, cleanForNotification = no_clean, sendText = send_ok\<rparr>"

definition route_ok :: "js_string \<Rightarrow> call_outcome" where
  "route_ok t = Returned"




definition empty_cache :: idempotency_cache where
  "empty_cache = \<lparr>entries = [], ttl = 60000, maxSize = 2\<rparr>"




definition blank_message :: discord_message where
  "blank_message =
     \<lparr>author_bot = False, message_channelId = ascii ''42'',
      message_content = JString [32, 9, 10, 12288], message_id = ascii ''1002''\<rparr>"

definition all_present :: "shutdown_step \<Rightarrow> bool" where
  "all_present x = True"

definition none_throws :: "shutdown_step \<Rightarrow> bool" where
  "none_throws x = False"

definition history_throws :: "shutdown_step \<Rightarrow> bool" where
  "history_throws x = (x = DestroyMessageHistory)"

definition only_login_fails :: "startup_step \<Rightarrow> bool" where
  "only_login_fails x = (x = Login)"

section \<open>Notifications sent by handleStateChange\<close>



text \<open>
  Claim C1, as the code has it: the handler calls \<open>messenger.sendText\<close> exactly
  once for a result of type \<open>input_prompt\<close> (with the waiting text built from the
  cleaned content) and exactly once for a result of type \<open>completed\<close>; for every
  other type, \<open>error\<close> included, it sends nothing.
\<close>

theorem handleStateChange_sends:
  "filter is_send (handleStateChange clean send r) =
     (if type r = input_prompt then [SendText (waiting_text clean r)]
      else if type r = completed then [SendText completed_text]
      else [])"
  by (cases "type r")
     (simp_all add: handleStateChange_def handleStateChange_begin_def
        handleStateChange_settle_def send_settled_def split: call_outcome.split)

text \<open>An instance: a prompt \<open>ok?\<close> is announced by one message.\<close>

theorem handleStateChange_sends_witness:
  "filter is_send (handleStateChange no_clean send_ok
      \<lparr>type = input_prompt, content = JString (ascii ''ok?''), timestamp = 7\<rparr>) =
     [SendText (waiting_prefix @ ascii ''ok?'')]"
  using handleStateChange_sends [of no_clean send_ok
      "\<lparr>type = input_prompt, content = JString (ascii ''ok?''), timestamp = 7\<rparr>"]
  by (simp add: waiting_text_def no_clean_def ascii_def)

text \<open>
  Claim C1 as stated fails: a result of type \<open>error\<close> reaches a case that breaks
  at once, and no message is sent.
\<close>

theorem error_state_sends_nothing:
  "filter is_send (handleStateChange no_clean send_ok
      \<lparr>type = error, content = JString (ascii ''boom''), timestamp = 7\<rparr>) = []"
  by (simp add: handleStateChange_def handleStateChange_begin_def handleStateChange_settle_def)

section \<open>The monitoring loop: ticks and samples\<close>

lemmas loop_defs = step_def emit_def setTimeout_def startMonitorPolling_def
  scheduleNextPoll_def on_data_def find_sample_def error_listener_def close_listener_def

lemma paused_step: "paused s \<Longrightarrow> paused (step env s ev)"
  by (cases ev) (auto simp: paused_def loop_defs Let_def split: option.splits)

lemma paused_run: "paused s \<Longrightarrow> paused (run env s evs)"
  unfolding run_def by (induction evs arbitrary: s) (simp_all add: paused_step)

lemma paused_initial: "paused (initial_state n)"
  by (simp add: paused_def initial_state_def)

lemma at_most_one:
  "length xs + length ys \<le> Suc 0 \<Longrightarrow>
   (xs = [] \<and> ys = []) \<or> (\<exists>x. xs = [x] \<and> ys = []) \<or> (\<exists>y. xs = [] \<and> ys = [y])"
  by (cases xs; cases ys) auto

lemma serial_step:
  assumes "serial s" and "\<not> is_error_event ev"
  shows "serial (step env s ev)"
proof -
  from assms(1) have "length (timers s) + length (samples s) \<le> Suc 0"
    by (simp add: serial_def)
  from at_most_one [OF this] assms show ?thesis
    by (cases ev) (auto simp: serial_def loop_defs Let_def split: option.splits if_splits)
qed

lemma serial_run:
  "serial s \<Longrightarrow> \<forall>ev\<in>set evs. \<not> is_error_event ev \<Longrightarrow> serial (run env s evs)"
  unfolding run_def by (induction evs arbitrary: s) (simp_all add: serial_step)

text \<open>
  As long as no process reports an error, the loop is strictly sequential: at most
  one sample is in flight, and no tick is pending while one is.
\<close>

lemma one_sample_without_error_events:
  assumes "\<forall>ev\<in>set evs. \<not> is_error_event ev"
  shows "length (timers (run env (initial_state n) evs)) +
         length (samples (run env (initial_state n) evs)) \<le> 1"
proof -
  have "serial (initial_state n)"
    by (simp add: serial_def initial_state_def)
  from serial_run [OF this assms] show ?thesis
    by (simp add: serial_def)
qed

text \<open>
  Claim C2 fails on the code. The session is \<open>main\<close> and the channel is connected.
  The first sample cannot be started: its process reports an error and then
  closes. The error listener and the close listener both schedule a tick, the two
  ticks fire, and two sampling processes (1 and 2) are in flight together.
\<close>

theorem error_then_close_two_samples_in_flight:
  "map pid (samples (run quiet_env (initial_state (Some (ascii ''main'')))
      [ClientReady, CommandsRegistered, TimerFired 0,
       ProcessError 0 (ascii ''spawn tmux ENOENT'') 2000,
       ProcessClosed 0 (Resolved None) idle_input 2000,
       TimerFired 1, TimerFired 2])) = [1, 2]"
  by (simp add: run_def initial_state_def quiet_env_def has_session_def ascii_def Let_def
      loop_defs)

text \<open>
  Claim C5 fails on the code, at the same place. After the one tick whose process
  reports an error and then closes, two next ticks are pending, one from each
  listener, both with the interval the detector returned; nothing has been sent to
  the channel.
\<close>

theorem error_then_close_schedules_two_ticks:
  "map snd (timers (run quiet_env (initial_state (Some (ascii ''main'')))
      [ClientReady, CommandsRegistered, TimerFired 0,
       ProcessError 0 (ascii ''spawn tmux ENOENT'') 1500,
       ProcessClosed 0 (Resolved None) idle_input 1500])) = [1500, 1500]
   \<and> filter is_send (trace (run quiet_env (initial_state (Some (ascii ''main'')))
      [ClientReady, CommandsRegistered, TimerFired 0,
       ProcessError 0 (ascii ''spawn tmux ENOENT'') 1500,
       ProcessClosed 0 (Resolved None) idle_input 1500])) = []"
  by (simp add: run_def initial_state_def quiet_env_def has_session_def ascii_def Let_def
      loop_defs)

text \<open>
  Before the first connection nothing is pending and nothing is in flight.
\<close>

lemma nothing_pending_before_ready:
  "\<not> isDiscordConnected (run env (initial_state n) evs) \<Longrightarrow>
   timers (run env (initial_state n) evs) = [] \<and> samples (run env (initial_state n) evs) = []"
  using paused_run [OF paused_initial, of env n evs] by (simp add: paused_def)

text \<open>
  The tick and the close listener test the flag: with the flag false they schedule
  nothing and spawn nothing. The error listener does not test it.
\<close>

lemma guarded_when_flag_false:
  "\<not> isDiscordConnected s \<Longrightarrow>
   timers (scheduleNextPoll s) = timers s \<and> samples (scheduleNextPoll s) = samples s
   \<and> timers (close_listener env buf out cur iv s) = timers s"
  by (simp add: scheduleNextPoll_def close_listener_def emit_def Let_def)

lemma error_listener_unguarded:
  "timers (error_listener msg iv s) = timers s @ [(nextTimer s, iv)]"
  by (simp add: error_listener_def setTimeout_def emit_def)



text \<open>
  Claim C3 fails on the code. The service is polling the session \<open>main\<close> and the
  gateway connection of the chat client is lost. The flag is still true; the
  pending tick fires, is not skipped and spawns a sample; when the sample closes,
  the next tick is scheduled. The polling has not paused (no tick was skipped),
  so there is nothing that a resumption of the connection could resume.
\<close>

theorem disconnect_does_not_pause_polling:
  "isDiscordConnected (run quiet_env (initial_state (Some (ascii ''main'')))
      [ClientReady, CommandsRegistered, ShardDisconnect])
   \<and> trace (run quiet_env (initial_state (Some (ascii ''main'')))
      [ClientReady, CommandsRegistered, ShardDisconnect, TimerFired 0,
       ProcessClosed 0 (Resolved None) idle_input 2000]) =
     [TranscriptStart, Log (MonitorStarted (Some (ascii ''main''))), SetTimeout 0 2000,
      Spawn 0 (Some (ascii ''main'')), SetTimeout 1 2000]
   \<and> timers (run quiet_env (initial_state (Some (ascii ''main'')))
      [ClientReady, CommandsRegistered, ShardDisconnect, TimerFired 0,
       ProcessClosed 0 (Resolved None) idle_input 2000, ShardResume]) = [(1, 2000)]"
  by (simp add: run_def initial_state_def quiet_env_def has_session_def ascii_def Let_def
      loop_defs)

section \<open>The close listener\<close>















section \<open>Inbound messages\<close>

lemma js_trim_empty_iff: "length (js_trim c) = 0 \<longleftrightarrow> list_all js_whitespace c"
proof
  assume "list_all js_whitespace c"
  then have "dropWhile js_whitespace c = []"
    by (simp add: list_all_iff)
  then show "length (js_trim c) = 0"
    by (simp add: js_trim_def del: dropWhile_eq_Nil_conv)
next
  assume "length (js_trim c) = 0"
  then have a: "\<forall>u\<in>set (dropWhile js_whitespace c). js_whitespace u"
    by (simp add: js_trim_def)
  have "dropWhile js_whitespace c = []"
  proof (rule ccontr)
    assume n: "dropWhile js_whitespace c \<noteq> []"
    then have "\<not> js_whitespace (hd (dropWhile js_whitespace c))"
      by (rule hd_dropWhile)
    moreover from n have "hd (dropWhile js_whitespace c) \<in> set (dropWhile js_whitespace c)"
      by (rule hd_in_set)
    ultimately show False using a by blast
  qed
  then show "list_all js_whitespace c"
    by (simp add: list_all_iff)
qed

lemma content_text_blank:
  "(case message_content m of JString c \<Rightarrow> list_all js_whitespace c | _ \<Rightarrow> True) \<Longrightarrow>
   content_text m = None"
  using js_trim_empty_iff by (auto simp: content_text_def split: js_content.splits)

text \<open>
  Claim C9. A message whose author is a bot, or whose channel is not the
  configured one, or whose content is missing, empty or made of white space only,
  leaves the handler with no effect at all: no call to the deduplicator, no log
  line, no routing, and the deduplicator unchanged. This holds for every
  deduplicator and every router.
\<close>

theorem filtered_message_no_effect:
  assumes "author_bot m \<or> message_channelId m \<noteq> channel \<or>
           (case message_content m of JString c \<Rightarrow> list_all js_whitespace c | _ \<Rightarrow> True)"
  shows "handleDiscordMessage channel dd route m d = ([], d)"
  using assms content_text_blank [of m] by (auto simp: handleDiscordMessage_def)

text \<open>
  An instance: a message of a space, a tab, a line feed and an ideographic space.
\<close>

theorem filtered_message_no_effect_witness:
  "list_all js_whitespace [32, 9, 10, 12288] \<and>
   handleDiscordMessage (ascii ''42'') (cache_at 5) route_ok blank_message empty_cache =
     ([], empty_cache)"
proof -
  have h: "list_all js_whitespace [32, 9, 10, 12288]"
    by (simp add: js_whitespace_def)
  then have "author_bot blank_message \<or> message_channelId blank_message \<noteq> ascii ''42'' \<or>
     (case message_content blank_message of JString c \<Rightarrow> list_all js_whitespace c | _ \<Rightarrow> True)"
    by (simp add: blank_message_def)
  from filtered_message_no_effect [OF this] h show ?thesis
    by simp
qed









lemma length_handle_all: "length (fst (handle_all channel route evs c)) = length evs"
  by (induction evs arbitrary: c) simp_all











section \<open>Shutdown and startup failure\<close>

lemma shutdown_try_prefix:
  "prefix (completed_steps (fst (shutdown_try present throws xs))) (filter present xs)"
  by (induction xs) simp_all

lemma shutdown_try_clean:
  "\<not> snd (shutdown_try present throws xs) \<Longrightarrow>
   fst (shutdown_try present throws xs) = map Shutdown (filter present xs)"
  by (induction xs) (simp_all split: if_splits)

lemma shutdown_try_thrown:
  "snd (shutdown_try present throws xs) \<Longrightarrow> distinct xs \<Longrightarrow>
   Shutdown (last xs) \<notin> set (fst (shutdown_try present throws xs))"
proof (induction xs)
  case Nil
  then show ?case by simp
next
  case (Cons x xs)
  then have ne: "xs = [] \<Longrightarrow> \<not> present x \<Longrightarrow> False" by simp
  show ?case
  proof (cases "present x")
    case False
    with Cons ne show ?thesis by (cases "xs = []") auto
  next
    case True
    show ?thesis
    proof (cases "throws x")
      case True
      with \<open>present x\<close> show ?thesis by simp
    next
      case False
      with \<open>present x\<close> Cons.prems have s: "snd (shutdown_try present throws xs)" by simp
      then have "xs \<noteq> []" by auto
      with Cons s \<open>present x\<close> False show ?thesis by auto
    qed
  qed
qed

lemma completed_steps_append_other:
  "completed_steps (as @ [LogShutdownFailed, ProcessExit n]) = completed_steps as"
  "completed_steps (as @ [ProcessExit n]) = completed_steps as"
  by (induction as rule: completed_steps.induct) simp_all

lemma shutdown_try_char:
  "shutdown_try present throws xs =
     (case find throws (filter present xs) of
        None \<Rightarrow> (map Shutdown (filter present xs), False)
      | Some x \<Rightarrow>
          (map Shutdown (takeWhile (\<lambda>y. \<not> throws y) (filter present xs)) @ [ShutdownThrew x],
           True))"
  by (induction xs) (simp_all split: option.split)

text \<open>
  Claim C7. The shutdown performs, in this order and each only after the one
  before has completed: the clearing of the pending tick timer, the stopping of
  the process manager (awaited), the destruction of the inbound deduplicator, the
  destruction of the outbound message history, the stopping of the transcript
  monitor, the destruction of the chat client; then it exits. A statement whose
  variable is not set is skipped. The first statement that throws ends the
  sequence: the failure is logged and the process exits, the later statements
  are not performed. So the statements that complete are always an initial part
  of that order; if the chat client is destroyed then every earlier statement
  whose variable is set has completed before it; and when everything is set and
  nothing throws, all six are performed.
\<close>

theorem shutdown_order:
  "shutdown present throws =
     (case find throws (filter present
              [ClearMonitorTimeout, StopProcessManager, DestroyDeduplicator,
               DestroyMessageHistory, StopTranscriptMonitor, DestroyDiscordClient]) of
        None \<Rightarrow>
          map Shutdown (filter present
              [ClearMonitorTimeout, StopProcessManager, DestroyDeduplicator,
               DestroyMessageHistory, StopTranscriptMonitor, DestroyDiscordClient]) @
          [ProcessExit 0]
      | Some x \<Rightarrow>
          map Shutdown (takeWhile (\<lambda>y. \<not> throws y) (filter present
              [ClearMonitorTimeout, StopProcessManager, DestroyDeduplicator,
               DestroyMessageHistory, StopTranscriptMonitor, DestroyDiscordClient])) @
          [ShutdownThrew x, LogShutdownFailed, ProcessExit 0])
   \<and> prefix (completed_steps (shutdown present throws))
     (filter present [ClearMonitorTimeout, StopProcessManager, DestroyDeduplicator,
                      DestroyMessageHistory, StopTranscriptMonitor, DestroyDiscordClient])
   \<and> (Shutdown DestroyDiscordClient \<in> set (shutdown present throws) \<longrightarrow>
        shutdown present throws =
          map Shutdown (filter present [ClearMonitorTimeout, StopProcessManager,
             DestroyDeduplicator, DestroyMessageHistory, StopTranscriptMonitor,
             DestroyDiscordClient]) @ [ProcessExit 0])
   \<and> ((\<forall>x. present x \<and> \<not> throws x) \<longrightarrow>
        shutdown present throws =
          [Shutdown ClearMonitorTimeout, Shutdown StopProcessManager,
           Shutdown DestroyDeduplicator, Shutdown DestroyMessageHistory,
           Shutdown StopTranscriptMonitor, Shutdown DestroyDiscordClient, ProcessExit 0])"
proof -
  let ?order = "[ClearMonitorTimeout, StopProcessManager, DestroyDeduplicator,
                 DestroyMessageHistory, StopTranscriptMonitor, DestroyDiscordClient]"
  let ?r = "shutdown_try present throws ?order"
  have zero: "shutdown present throws =
     (case find throws (filter present ?order) of
        None \<Rightarrow> map Shutdown (filter present ?order) @ [ProcessExit 0]
      | Some x \<Rightarrow>
          map Shutdown (takeWhile (\<lambda>y. \<not> throws y) (filter present ?order)) @
          [ShutdownThrew x, LogShutdownFailed, ProcessExit 0])"
    unfolding shutdown_def Let_def shutdown_try_char
    by (simp split: option.split)
  have p: "prefix (completed_steps (fst ?r)) (filter present ?order)"
    by (rule shutdown_try_prefix)
  have sd: "shutdown present throws =
      fst ?r @ (if snd ?r then [LogShutdownFailed] else []) @ [ProcessExit 0]"
    by (simp only: shutdown_def Let_def)
  have one: "prefix (completed_steps (shutdown present throws)) (filter present ?order)"
    using p
    by (cases "snd ?r")
       (simp_all only: sd completed_steps_append_other if_True if_False append_Nil append_Cons)
  have two: "shutdown present throws = map Shutdown (filter present ?order) @ [ProcessExit 0]"
    if h: "Shutdown DestroyDiscordClient \<in> set (shutdown present throws)"
  proof (cases "snd ?r")
    case True
    have "Shutdown (last ?order) \<notin> set (fst ?r)"
      by (rule shutdown_try_thrown [OF True]) simp
    then have "Shutdown DestroyDiscordClient \<notin> set (fst ?r)" by simp
    with h True show ?thesis by (simp only: sd) simp
  next
    case False
    from shutdown_try_clean [OF False] False show ?thesis by (simp only: sd) simp
  qed
  have three: "shutdown present throws =
          [Shutdown ClearMonitorTimeout, Shutdown StopProcessManager,
           Shutdown DestroyDeduplicator, Shutdown DestroyMessageHistory,
           Shutdown StopTranscriptMonitor, Shutdown DestroyDiscordClient, ProcessExit 0]"
    if "\<forall>x. present x \<and> \<not> throws x"
    using that by (simp add: shutdown_def)
  from zero one two three show ?thesis by blast
qed

text \<open>
  Two instances: everything is set and nothing fails; everything is set and the
  destruction of the message history fails, so that the transcript monitor is not
  stopped and the chat client is not destroyed.
\<close>

theorem shutdown_order_witness:
  "(\<forall>x. all_present x \<and> \<not> none_throws x)
   \<and> Shutdown DestroyDiscordClient \<in> set (shutdown all_present none_throws)
   \<and> shutdown all_present none_throws =
       [Shutdown ClearMonitorTimeout, Shutdown StopProcessManager,
        Shutdown DestroyDeduplicator, Shutdown DestroyMessageHistory,
        Shutdown StopTranscriptMonitor, Shutdown DestroyDiscordClient, ProcessExit 0]
   \<and> shutdown all_present history_throws =
       [Shutdown ClearMonitorTimeout, Shutdown StopProcessManager,
        Shutdown DestroyDeduplicator, ShutdownThrew DestroyMessageHistory,
        LogShutdownFailed, ProcessExit 0]"
proof -
  have h: "\<forall>x. all_present x \<and> \<not> none_throws x"
    by (simp add: all_present_def none_throws_def)
  from shutdown_order [of all_present none_throws] h have
    a: "shutdown all_present none_throws =
       [Shutdown ClearMonitorTimeout, Shutdown StopProcessManager,
        Shutdown DestroyDeduplicator, Shutdown DestroyMessageHistory,
        Shutdown StopTranscriptMonitor, Shutdown DestroyDiscordClient, ProcessExit 0]"
    by blast
  then have m: "Shutdown DestroyDiscordClient \<in> set (shutdown all_present none_throws)"
    by simp
  from shutdown_order [of all_present history_throws] have
    b: "shutdown all_present history_throws =
       [Shutdown ClearMonitorTimeout, Shutdown StopProcessManager,
        Shutdown DestroyDeduplicator, ShutdownThrew DestroyMessageHistory,
        LogShutdownFailed, ProcessExit 0]"
    by (simp add: all_present_def history_throws_def)
  from h m a b show ?thesis by blast
qed

lemma main_try_failure:
  "\<exists>x\<in>set xs. throws x \<Longrightarrow>
   \<exists>pre y. throws y \<and> y \<in> set xs \<and>
     main_try throws xs = map Startup pre @ [StartupThrew y, LogStartupFailed, ProcessExit 1]"
proof (induction xs)
  case Nil
  then show ?case by simp
next
  case (Cons x xs)
  show ?case
  proof (cases "throws x")
    case True
    then have "main_try throws (x # xs) =
        map Startup [] @ [StartupThrew x, LogStartupFailed, ProcessExit 1]"
      by simp
    with True show ?thesis by (metis list.set_intros(1))
  next
    case False
    with Cons.prems have "\<exists>x\<in>set xs. throws x" by auto
    from Cons.IH [OF this] obtain pre y where
      "throws y" "y \<in> set xs"
      "main_try throws xs = map Startup pre @ [StartupThrew y, LogStartupFailed, ProcessExit 1]"
      by blast
    with False have "main_try throws (x # xs) =
        map Startup (x # pre) @ [StartupThrew y, LogStartupFailed, ProcessExit 1]"
      by simp
    with \<open>throws y\<close> \<open>y \<in> set xs\<close> show ?thesis by (metis list.set_intros(2))
  qed
qed

text \<open>
  Claim C8, as the code has it. If a statement of the startup throws, the
  statements before it have completed, the failure is logged and the process
  exits with code 1 at once: the exit is the last action, and no statement of the
  shutdown is performed or attempted before it.
\<close>

theorem startup_failure_exits_one:
  assumes "\<exists>x\<in>set (main_steps session_found). throws x"
  shows "(\<exists>pre y. throws y \<and>
            main throws session_found =
              map Startup pre @ [StartupThrew y, LogStartupFailed, ProcessExit 1])
     \<and> last (main throws session_found) = ProcessExit 1
     \<and> filter is_shutdown_action (main throws session_found) = []"
proof -
  from main_try_failure [OF assms] obtain pre y where
    y: "throws y" and
    e: "main throws session_found =
          map Startup pre @ [StartupThrew y, LogStartupFailed, ProcessExit 1]"
    unfolding main_def by blast
  have "filter is_shutdown_action (map Startup pre) = []"
    by (induction pre) simp_all
  then have "last (main throws session_found) = ProcessExit 1
     \<and> filter is_shutdown_action (main throws session_found) = []"
    by (simp add: e)
  with y e show ?thesis by blast
qed

text \<open>An instance: the login is rejected.\<close>

theorem startup_failure_exits_one_witness:
  "(\<exists>x\<in>set (main_steps True). only_login_fails x)
   \<and> last (main only_login_fails True) = ProcessExit 1
   \<and> filter is_shutdown_action (main only_login_fails True) = []"
proof -
  have h: "\<exists>x\<in>set (main_steps True). only_login_fails x"
    by (simp add: main_steps_def only_login_fails_def)
  from startup_failure_exits_one [OF h] h show ?thesis
    by blast
qed

text \<open>
  Claim C8 as stated fails: when the login is rejected, the process manager has
  been started, and it is not stopped before the exit, nor is any other statement
  of the shutdown attempted.
\<close>

theorem startup_failure_skips_shutdown:
  "Startup StartProcessManager \<in> set (main only_login_fails True)
   \<and> Shutdown StopProcessManager \<notin> set (main only_login_fails True)
   \<and> ShutdownThrew StopProcessManager \<notin> set (main only_login_fails True)
   \<and> last (main only_login_fails True) = ProcessExit 1"
  by (simp add: main_def main_steps_def only_login_fails_def)

end
